theory Spec2Isabelle
  imports Main
begin

section \<open>The contract engine of \<^verbatim>\<open>contracts/main.py\<close>\<close>

text \<open>
  \<^verbatim>\<open>main.py\<close> is the front end of the contract checker: the cached parser
  (\<^verbatim>\<open>parse_contract_string\<close>), the checking entry points (\<^verbatim>\<open>check_contracts\<close>,
  \<^verbatim>\<open>check\<close>, \<^verbatim>\<open>fail\<close>, \<^verbatim>\<open>check_multiple\<close>) and the registration of new
  contracts (\<^verbatim>\<open>new_contract_impl\<close>, \<^verbatim>\<open>can_accept_exactly_one_argument\<close>).
  The grammar (\<^verbatim>\<open>syntax.py\<close>), the node classes (\<^verbatim>\<open>library.py\<close>,
  \<^verbatim>\<open>interface.py\<close>) and the introspection helper (\<^verbatim>\<open>backported.py\<close>) are used
  by \<^verbatim>\<open>main.py\<close> but are not part of it; every function below takes them as a
  parameter, the record \<open>env\<close>, and the theorems hold for every such environment.
  The two module-level dictionaries, \<^verbatim>\<open>Storage.string2contract\<close> and
  \<^verbatim>\<open>Extension.registrar\<close>, are the explicit state that every function receives and
  returns. A raised exception is a value \<open>Inl e\<close>.
\<close>

subsection \<open>Nodes, errors and state\<close>

text \<open>
  What a parser of the grammar engine (pyparsing) does with a string: it returns its
  tokens, or raises \<^verbatim>\<open>ParseException\<close> or \<^verbatim>\<open>ParseFatalException\<close>. Both
  exceptions carry the position \<^verbatim>\<open>loc\<close> in the string, an index from 0, and the
  message \<^verbatim>\<open>msg\<close>; the string itself is their \<^verbatim>\<open>pstr\<close>.
\<close>

datatype 'a parse_outcome =
    Parsed 'a
  | ParseException nat string
  | ParseFatalException nat string

text \<open>
  The properties \<^verbatim>\<open>e.lineno\<close> and \<^verbatim>\<open>e.col\<close> of these exceptions are pyparsing's
  \<^verbatim>\<open>lineno(loc, pstr)\<close> and \<^verbatim>\<open>col(loc, pstr)\<close>:
  \<^verbatim>\<open>strg.count("\n", 0, loc) + 1\<close> and
  \<^verbatim>\<open>1 if 0 < loc < len(s) and s[loc-1] == '\n' else loc - s.rfind("\n", 0, loc)\<close>,
  where \<^verbatim>\<open>rfind\<close> is the last index of a newline before \<^verbatim>\<open>loc\<close>, or -1.
\<close>

definition lineno :: "nat \<Rightarrow> string \<Rightarrow> nat" where
  "lineno loc strg = count_list (take loc strg) (CHR 0x0A) + 1"

definition rfind_newline :: "string \<Rightarrow> nat \<Rightarrow> int" where
  "rfind_newline strg loc =
     (case filter (\<lambda>i. strg ! i = CHR 0x0A) (rev [0..<min loc (length strg)]) of
        [] \<Rightarrow> - 1
      | i # _ \<Rightarrow> int i)"

definition col :: "nat \<Rightarrow> string \<Rightarrow> nat" where
  "col loc strg =
     (if 0 < loc \<and> loc < length strg \<and> strg ! (loc - 1) = CHR 0x0A then 1
      else nat (int loc - rfind_newline strg loc))"

text \<open>
  The contract nodes that \<^verbatim>\<open>main.py\<close> builds itself are \<^verbatim>\<open>Extension(identifier)\<close>,
  \<^verbatim>\<open>CheckCallable(condition)\<close> and \<^verbatim>\<open>SeparateContext(bare_contract)\<close>; every other
  node class of the library is a \<open>Node\<close> with an opaque content.
  Modelled from the spec: the \<^verbatim>\<open>__eq__\<close> of the node classes (\<^verbatim>\<open>interface.py\<close>,
  \<^verbatim>\<open>library.py\<close>) is missing; node equality is structural, so \<^verbatim>\<open>==\<close> on nodes is
  the equality of this datatype.
\<close>

datatype ('f, 'n) contract =
    Node 'n
  | Extension string
  | CheckCallable 'f
  | SeparateContext "('f, 'n) contract"

text \<open>\<^verbatim>\<open>Where(string, line=..., column=...)\<close>.\<close>

datatype whr = Where string nat nat

text \<open>
  An argument of \<^verbatim>\<open>new_contract_impl\<close> as the function tells them apart: a
  \<^verbatim>\<open>str\<close>, an object with \<^verbatim>\<open>__call__\<close>, anything else.
\<close>

datatype ('v, 'f) pyarg = Str string | Callable 'f | Other 'v

text \<open>
  The \<^verbatim>\<open>ValueError\<close>s of \<^verbatim>\<open>main.py\<close>. Their messages are built with
  \<^verbatim>\<open>%r\<close> and \<^verbatim>\<open>%s\<close> from the objects kept here as arguments, in the order of
  the format string.
\<close>

datatype ('v, 'f, 'n, 'c) value_error =
    IdentifierNotString "('v, 'f) pyarg"
  | InvalidIdentifier string "('f, 'n) contract"
  | NotAnIdentifier string string whr
  | ConditionDoesNotParse string string whr
  | CallableArity 'f "string option"
  | NeedStringOrCallable "('v, 'f) pyarg"
  | Redefinition string "('f, 'n) contract" "('f, 'n) contract"
  | UnexpectedlySatisfied 'v "('f, 'n) contract" 'c

text \<open>
  The exceptions that leave the functions of \<^verbatim>\<open>main.py\<close>.
  \<open>ContractNotRespected err x\<close> has the field \<^verbatim>\<open>error\<close> (the only one
  \<^verbatim>\<open>main.py\<close> touches) and the rest of the exception, \<open>x\<close>.
  \<open>UncaughtParseFatal\<close> is a \<^verbatim>\<open>ParseFatalException\<close> of the identifier grammar,
  which \<^verbatim>\<open>new_contract_impl\<close> does not catch.
\<close>

datatype ('v, 'f, 'n, 'c, 'x) error =
    ContractSyntaxError string whr
  | ContractNotRespected string 'x
  | ValueError "('v, 'f, 'n, 'c) value_error"
  | AssertionError
  | UncaughtParseFatal nat string

record ('f, 'n) state =
  string2contract :: "string \<rightharpoonup> ('f, 'n) contract"
  registrar :: "string \<rightharpoonup> ('f, 'n) contract"

text \<open>
  The environment: what \<^verbatim>\<open>main.py\<close> imports.
  \<^item> \<open>contract_parse reg s\<close> is the match of the grammar \<^verbatim>\<open>contract\<close> at the start
    of \<open>s\<close>: the node \<^verbatim>\<open>tokens[0]\<close> and the position where the match ends; the
    grammar reads \<^verbatim>\<open>Extension.registrar\<close>, hence \<open>reg\<close>. \<open>preParse s loc\<close> is
    the position after the white space that the grammar skips from \<open>loc\<close>.
  \<^item> \<open>exception_str s loc msg\<close> is \<^verbatim>\<open>'%s' % e\<close> for a grammar exception \<open>e\<close> on
    the string \<open>s\<close>.
  \<^item> \<open>identifier_expression s\<close> is
    \<^verbatim>\<open>identifier_expression.parseString(s, parseAll=True)\<close>; its tokens are not used.
  \<^item> \<open>check_contract reg c context value\<close> is \<^verbatim>\<open>c._check_contract(context, value)\<close>:
    it returns the context with the bindings it made, or raises.
  \<^item> \<open>contract_check reg c value\<close> is \<^verbatim>\<open>c.check(value)\<close>.
  \<^item> \<open>Context\<close> is a fresh \<^verbatim>\<open>Context()\<close>.
  \<^item> \<open>ismethod\<close>, \<open>isfunction\<close> are those of \<^verbatim>\<open>inspect\<close>; \<open>im_func\<close>,
    \<open>im_self\<close>, \<open>call_attr\<close> read \<^verbatim>\<open>__func__\<close>, \<^verbatim>\<open>__self__\<close> and
    \<^verbatim>\<open>__call__\<close>; \<open>getcallargs f args\<close> is \<open>None\<close> when the arguments bind and
    \<open>Some (str e)\<close> when \<^verbatim>\<open>getcallargs(f, *args)\<close> raises \<^verbatim>\<open>TypeError\<close> or
    \<^verbatim>\<open>ValueError\<close>.
  \<^item> \<open>str_value\<close> and \<open>couples_value\<close> are a \<^verbatim>\<open>str\<close> and a list of
    (contract, value) tuples seen as Python values.
\<close>

record ('v, 'f, 'n, 'c, 'x) env =
  contract_parse :: "(string \<rightharpoonup> ('f, 'n) contract) \<Rightarrow> string
                       \<Rightarrow> (('f, 'n) contract \<times> nat) parse_outcome"
  preParse :: "string \<Rightarrow> nat \<Rightarrow> nat"
  exception_str :: "string \<Rightarrow> nat \<Rightarrow> string \<Rightarrow> string"
  identifier_expression :: "string \<Rightarrow> unit parse_outcome"
  check_contract :: "(string \<rightharpoonup> ('f, 'n) contract) \<Rightarrow> ('f, 'n) contract \<Rightarrow> 'c \<Rightarrow> 'v
                       \<Rightarrow> ('v, 'f, 'n, 'c, 'x) error + 'c"
  contract_check :: "(string \<rightharpoonup> ('f, 'n) contract) \<Rightarrow> ('f, 'n) contract \<Rightarrow> 'v
                       \<Rightarrow> ('v, 'f, 'n, 'c, 'x) error + 'c"
  Context :: 'c
  ismethod :: "'f \<Rightarrow> bool"
  isfunction :: "'f \<Rightarrow> bool"
  im_func :: "'f \<Rightarrow> 'f"
  im_self :: "'f \<Rightarrow> 'v"
  call_attr :: "'f \<Rightarrow> 'f"
  getcallargs :: "'f \<Rightarrow> 'v list \<Rightarrow> string option"
  str_value :: "string \<Rightarrow> 'v"
  couples_value :: "(string \<times> 'v) list \<Rightarrow> 'v"

type_synonym ('v, 'f, 'n, 'c, 'x, 'a) result = "('f, 'n) state \<times> (('v, 'f, 'n, 'c, 'x) error + 'a)"

subsection \<open>The cached parser\<close>

text \<open>
  \<^verbatim>\<open>contract.parseString(string, parseAll=True)[0]\<close> (line 55). With
  \<^verbatim>\<open>parseAll=True\<close> pyparsing's \<^verbatim>\<open>parseString\<close> matches the grammar at the start
  of the string, skips the white space after the match and then requires the end of
  the string: when input is left it raises
  \<^verbatim>\<open>ParseException(instring, loc, "Expected end of text")\<close> at the position of that
  input. The exceptions of the grammar itself pass through.
\<close>

definition contract_parseString ::
  "('v, 'f, 'n, 'c, 'x) env \<Rightarrow> (string \<rightharpoonup> ('f, 'n) contract) \<Rightarrow> string
     \<Rightarrow> ('f, 'n) contract parse_outcome" where
  "contract_parseString E reg instring =
     (case contract_parse E reg instring of
        Parsed (c, loc) \<Rightarrow>
          (let loc' = preParse E instring loc in
           if loc' < length instring then ParseException loc' ''Expected end of text''
           else Parsed c)
      | ParseException loc msg \<Rightarrow> ParseException loc msg
      | ParseFatalException loc msg \<Rightarrow> ParseFatalException loc msg)"

text \<open>
  \<^verbatim>\<open>parse_contract_string\<close> (lines 50-68). The two \<^verbatim>\<open>isinstance\<close> assertions hold
  by typing. A string in the cache is returned from it; otherwise the grammar runs, a
  node is stored and returned, and both grammar exceptions become a
  \<^verbatim>\<open>ContractSyntaxError\<close> with \<^verbatim>\<open>Where(string, line=e.lineno, column=e.col)\<close>.
\<close>

definition parse_contract_string ::
  "('v, 'f, 'n, 'c, 'x) env \<Rightarrow> ('f, 'n) state \<Rightarrow> string \<Rightarrow> ('v, 'f, 'n, 'c, 'x, ('f, 'n) contract) result" where
  "parse_contract_string E s string =
     (case string2contract s string of
        Some c \<Rightarrow> (s, Inr c)
      | None \<Rightarrow>
          (case contract_parseString E (registrar s) string of
             Parsed c \<Rightarrow> (s\<lparr>string2contract := (string2contract s)(string \<mapsto> c)\<rparr>, Inr c)
           | ParseException loc msg \<Rightarrow>
               (s, Inl (ContractSyntaxError (exception_str E string loc msg)
                          (Where string (lineno loc string) (col loc string))))
           | ParseFatalException loc msg \<Rightarrow>
               (s, Inl (ContractSyntaxError (exception_str E string loc msg)
                          (Where string (lineno loc string) (col loc string))))))"

subsection \<open>Checking\<close>

text \<open>
  \<^verbatim>\<open>check_contracts\<close> (lines 14-45). The first pass parses every contract string, in
  order, before anything is checked; the second pass calls \<^verbatim>\<open>_check_contract\<close> of
  each node with the one \<^verbatim>\<open>Context()\<close> made after the parsing.
\<close>

fun parse_contracts ::
  "('v, 'f, 'n, 'c, 'x) env \<Rightarrow> ('f, 'n) state \<Rightarrow> string list
     \<Rightarrow> ('v, 'f, 'n, 'c, 'x, ('f, 'n) contract list) result" where
  "parse_contracts E s [] = (s, Inr [])"
| "parse_contracts E s (x # xs) =
     (case parse_contract_string E s x of
        (s', Inl e) \<Rightarrow> (s', Inl e)
      | (s', Inr c) \<Rightarrow>
          (case parse_contracts E s' xs of
             (s'', Inl e) \<Rightarrow> (s'', Inl e)
           | (s'', Inr cs) \<Rightarrow> (s'', Inr (c # cs))))"

fun check_loop ::
  "('v, 'f, 'n, 'c, 'x) env \<Rightarrow> (string \<rightharpoonup> ('f, 'n) contract) \<Rightarrow> 'c
     \<Rightarrow> (('f, 'n) contract \<times> 'v) list \<Rightarrow> ('v, 'f, 'n, 'c, 'x) error + 'c" where
  "check_loop E reg context [] = Inr context"
| "check_loop E reg context ((c, v) # rest) =
     (case check_contract E reg c context v of
        Inl e \<Rightarrow> Inl e
      | Inr context' \<Rightarrow> check_loop E reg context' rest)"

definition check_contracts ::
  "('v, 'f, 'n, 'c, 'x) env \<Rightarrow> ('f, 'n) state \<Rightarrow> string list \<Rightarrow> 'v list
     \<Rightarrow> ('v, 'f, 'n, 'c, 'x, 'c) result" where
  "check_contracts E s contracts values =
     (if length contracts \<noteq> length values then (s, Inl AssertionError)
      else
        (case parse_contracts E s contracts of
           (s', Inl e) \<Rightarrow> (s', Inl e)
         | (s', Inr C) \<Rightarrow> (s', check_loop E (registrar s') (Context E) (zip C values))))"

text \<open>
  The \<^verbatim>\<open>except ContractNotRespected as e\<close> handlers of \<^verbatim>\<open>check\<close> and
  \<^verbatim>\<open>check_multiple\<close>: with a description, \<^verbatim>\<open>e.error\<close> becomes the description,
  a separator and the old \<^verbatim>\<open>e.error\<close>; the exception is raised again.
\<close>

definition newline :: string where
  "newline = [CHR 0x0A]"

fun describe_error ::
  "string option \<Rightarrow> string \<Rightarrow> ('v, 'f, 'n, 'c, 'x) error \<Rightarrow> ('v, 'f, 'n, 'c, 'x) error" where
  "describe_error (Some desc) sep (ContractNotRespected err x) = ContractNotRespected (desc @ sep @ err) x"
| "describe_error desc sep e = e"

text \<open>\<^verbatim>\<open>check\<close> (lines 288-310); the contract is a \<^verbatim>\<open>str\<close> by typing.\<close>

definition check ::
  "('v, 'f, 'n, 'c, 'x) env \<Rightarrow> ('f, 'n) state \<Rightarrow> string \<Rightarrow> 'v \<Rightarrow> string option
     \<Rightarrow> ('v, 'f, 'n, 'c, 'x, 'c) result" where
  "check E s contract object desc =
     (case check_contracts E s [contract] [object] of
        (s', Inl e) \<Rightarrow>
          (s', Inl (describe_error desc (newline @ ''Details of PyContracts error:'' @ newline) e))
      | (s', Inr context) \<Rightarrow> (s', Inr context))"

text \<open>
  \<^verbatim>\<open>fail\<close> (lines 312-328). Only \<^verbatim>\<open>ContractNotRespected\<close> is caught; when
  nothing is raised the \<^verbatim>\<open>else\<close> branch raises the \<^verbatim>\<open>ValueError\<close> that names the
  value, the contract and the context.
\<close>

definition fail ::
  "('v, 'f, 'n, 'c, 'x) env \<Rightarrow> ('f, 'n) state \<Rightarrow> string \<Rightarrow> 'v \<Rightarrow> ('v, 'f, 'n, 'c, 'x, unit) result" where
  "fail E s contract v =
     (case parse_contract_string E s contract of
        (s', Inl e) \<Rightarrow>
          (case e of ContractNotRespected err x \<Rightarrow> (s', Inr ()) | _ \<Rightarrow> (s', Inl e))
      | (s', Inr c) \<Rightarrow>
          (case contract_check E (registrar s') c v of
             Inl e \<Rightarrow>
               (case e of ContractNotRespected err x \<Rightarrow> (s', Inr ()) | _ \<Rightarrow> (s', Inl e))
           | Inr context \<Rightarrow> (s', Inl (ValueError (UnexpectedlySatisfied v c context)))))"

text \<open>
  \<^verbatim>\<open>check_multiple\<close> (lines 332-356). The couples are first checked, as one value,
  against the contract \<^verbatim>\<open>list[>0](tuple(str, *))\<close>; an exception of that check leaves
  the function. Then the contracts and the values are taken apart and given to
  \<^verbatim>\<open>check_contracts\<close>.
\<close>

definition check_multiple ::
  "('v, 'f, 'n, 'c, 'x) env \<Rightarrow> ('f, 'n) state \<Rightarrow> (string \<times> 'v) list \<Rightarrow> string option
     \<Rightarrow> ('v, 'f, 'n, 'c, 'x, 'c) result" where
  "check_multiple E s couples desc =
     (case check E s ''list[>0](tuple(str, *))'' (couples_value E couples)
             (Some ''I expect a non-empty list of (object, string) tuples.'') of
        (s0, Inl e) \<Rightarrow> (s0, Inl e)
      | (s0, Inr _) \<Rightarrow>
          (case check_contracts E s0 (map fst couples) (map snd couples) of
             (s', Inl e) \<Rightarrow>
               (s', Inl (describe_error desc (newline @ newline @ ''Details:'' @ newline) e))
           | (s', Inr context) \<Rightarrow> (s', Inr context)))"

subsection \<open>Registration of new contracts\<close>

text \<open>
  \<^verbatim>\<open>can_accept_exactly_one_argument\<close> (lines 494-514): a bound method is tried as
  its function on \<^verbatim>\<open>(self, 'test')\<close>, anything that is not a plain function as its
  \<^verbatim>\<open>__call__\<close> on \<^verbatim>\<open>('test',)\<close>, a plain function on \<^verbatim>\<open>('test',)\<close>.
\<close>

definition can_accept_exactly_one_argument ::
  "('v, 'f, 'n, 'c, 'x) env \<Rightarrow> 'f \<Rightarrow> bool \<times> string option" where
  "can_accept_exactly_one_argument E callable_thing =
     (let (f, args) =
            (if ismethod E callable_thing
             then (im_func E callable_thing, [im_self E callable_thing, str_value E ''test''])
             else ((if \<not> isfunction E callable_thing then call_attr E callable_thing
                    else callable_thing),
                   [str_value E ''test'']))
      in case getcallargs E f args of
           Some e \<Rightarrow> (False, Some e)
         | None \<Rightarrow> (True, None))"

text \<open>
  \<^verbatim>\<open>new_contract_impl\<close>, lines 417-447: the identifier is a \<^verbatim>\<open>str\<close>; unless it is
  in the registrar already it does not parse as a contract (a \<^verbatim>\<open>ContractSyntaxError\<close>
  of the parser is what lets it through); it parses as an identifier. Only
  \<^verbatim>\<open>ParseException\<close> is caught in the last step.
\<close>

definition identifier_checks ::
  "('v, 'f, 'n, 'c, 'x) env \<Rightarrow> ('f, 'n) state \<Rightarrow> ('v, 'f) pyarg \<Rightarrow> ('v, 'f, 'n, 'c, 'x, string) result" where
  "identifier_checks E s identifier =
     (case identifier of
        Str ident \<Rightarrow>
          (let (s1, raised) =
                 (case registrar s ident of
                    Some _ \<Rightarrow> (s, None)
                  | None \<Rightarrow>
                      (case parse_contract_string E s ident of
                         (s', Inr c) \<Rightarrow> (s', Some (ValueError (InvalidIdentifier ident c)))
                       | (s', Inl e) \<Rightarrow>
                           (case e of ContractSyntaxError m w \<Rightarrow> (s', None) | _ \<Rightarrow> (s', Some e))))
           in case raised of
                Some e \<Rightarrow> (s1, Inl e)
              | None \<Rightarrow>
                  (case identifier_expression E ident of
                     Parsed _ \<Rightarrow> (s1, Inr ident)
                   | ParseException loc msg \<Rightarrow>
                       (s1, Inl (ValueError (NotAnIdentifier ident (exception_str E ident loc msg)
                                   (Where ident (lineno loc ident) (col loc ident)))))
                   | ParseFatalException loc msg \<Rightarrow>
                       (s1, Inl (UncaughtParseFatal loc msg))))
      | _ \<Rightarrow> (s, Inl (ValueError (IdentifierNotString identifier))))"

text \<open>
  Lines 449-466: the bare contract of the condition. A string is parsed with the cached
  parser; a callable is inspected and wrapped; anything else is refused.
\<close>

definition condition_contract ::
  "('v, 'f, 'n, 'c, 'x) env \<Rightarrow> ('f, 'n) state \<Rightarrow> ('v, 'f) pyarg
     \<Rightarrow> ('v, 'f, 'n, 'c, 'x, ('f, 'n) contract) result" where
  "condition_contract E s condition =
     (case condition of
        Str cond \<Rightarrow>
          (case parse_contract_string E s cond of
             (s', Inr bare_contract) \<Rightarrow> (s', Inr bare_contract)
           | (s', Inl e) \<Rightarrow>
               (case e of
                  ContractSyntaxError m w \<Rightarrow> (s', Inl (ValueError (ConditionDoesNotParse cond m w)))
                | _ \<Rightarrow> (s', Inl e)))
      | Callable f \<Rightarrow>
          (case can_accept_exactly_one_argument E f of
             (True, _) \<Rightarrow> (s, Inr (CheckCallable f))
           | (False, error) \<Rightarrow> (s, Inl (ValueError (CallableArity f error))))
      | Other v \<Rightarrow> (s, Inl (ValueError (NeedStringOrCallable condition))))"

text \<open>
  Lines 483-490: the identifier is parsed again and must be equal to
  \<^verbatim>\<open>Extension(identifier)\<close>; a \<^verbatim>\<open>ContractSyntaxError\<close> here is turned into a failed
  assertion. The bare contract is what is returned (line 492).
\<close>

definition self_check ::
  "('v, 'f, 'n, 'c, 'x) env \<Rightarrow> ('f, 'n) state \<Rightarrow> string \<Rightarrow> ('f, 'n) contract
     \<Rightarrow> ('v, 'f, 'n, 'c, 'x, ('f, 'n) contract) result" where
  "self_check E s ident bare_contract =
     (case parse_contract_string E s ident of
        (s', Inr c) \<Rightarrow>
          (if c = Extension ident then (s', Inr bare_contract) else (s', Inl AssertionError))
      | (s', Inl e) \<Rightarrow>
          (case e of ContractSyntaxError m w \<Rightarrow> (s', Inl AssertionError) | _ \<Rightarrow> (s', Inl e)))"

text \<open>
  \<^verbatim>\<open>new_contract_impl\<close> (lines 415-492): the three steps above around lines 468-481,
  where the bare contract is wrapped in \<^verbatim>\<open>SeparateContext\<close> and either compared with
  the registered contract or registered.
\<close>

definition new_contract_impl ::
  "('v, 'f, 'n, 'c, 'x) env \<Rightarrow> ('f, 'n) state \<Rightarrow> ('v, 'f) pyarg \<Rightarrow> ('v, 'f) pyarg
     \<Rightarrow> ('v, 'f, 'n, 'c, 'x, ('f, 'n) contract) result" where
  "new_contract_impl E s identifier condition =
     (case identifier_checks E s identifier of
        (s1, Inl e) \<Rightarrow> (s1, Inl e)
      | (s1, Inr ident) \<Rightarrow>
          (case condition_contract E s1 condition of
             (s2, Inl e) \<Rightarrow> (s2, Inl e)
           | (s2, Inr bare_contract) \<Rightarrow>
               (let contract = SeparateContext bare_contract in
                case registrar s2 ident of
                  Some old \<Rightarrow>
                    (if \<not> (contract = old)
                     then (s2, Inl (ValueError (Redefinition ident old contract)))
                     else self_check E s2 ident bare_contract)
                | None \<Rightarrow>
                    self_check E (s2\<lparr>registrar := (registrar s2)(ident \<mapsto> contract)\<rparr>)
                      ident bare_contract)))"

subsection \<open>A sample environment\<close>

text \<open>
  A small instance of the environment, on which the theorems below are exercised with
  the scenarios of the specification: Python values, plain functions with a number of
  positional parameters, a grammar that knows \<^verbatim>\<open>int\<close>, \<^verbatim>\<open>int,>0\<close>,
  \<^verbatim>\<open>int,<0\<close>, \<^verbatim>\<open>list\<close>, \<^verbatim>\<open>list[N]\<close>, the contract of the couples and
  the registered identifiers, and a context that is a list of bindings.
\<close>

datatype pyval = PyInt int | PyStr string | PyList "pyval list" | PyTuple "pyval list"

datatype pyfun = Lambda nat

datatype sample_node =
  CheckInt | CheckList | IntGreater int | IntLess int | ListLength string | ListOfCouples

type_synonym sample_contract = "(pyfun, sample_node) contract"
type_synonym sample_error = "(pyval, pyfun, sample_node, (string \<times> int) list, pyval) error"
type_synonym sample_env = "(pyval, pyfun, sample_node, (string \<times> int) list, pyval) env"

text \<open>
  The sample grammars skip white space before a token and after the last one, as
  pyparsing does: blank, tab, newline and carriage return.
\<close>

definition sample_preParse :: "string \<Rightarrow> nat \<Rightarrow> nat" where
  "sample_preParse s loc =
     loc + length (takeWhile (\<lambda>c. c \<in> set [CHR 0x20, CHR 0x09, CHR 0x0A, CHR 0x0D]) (drop loc s))"

definition word :: "string \<Rightarrow> string" where
  "word s =
     takeWhile
       (\<lambda>c. c \<in> set ''abcdefghijklmnopqrstuvwxyzABCDEFGHIJKLMNOPQRSTUVWXYZ_0123456789'') s"

definition sample_grammar ::
  "(string \<rightharpoonup> sample_contract) \<Rightarrow> string \<Rightarrow> (sample_contract \<times> nat) parse_outcome" where
  "sample_grammar reg s =
     (let start = sample_preParse s 0;
          w = word (drop start s);
          rest = drop (start + length w) s
      in if w = ''int'' then
           (if take 3 rest = '',>0'' then Parsed (Node (IntGreater 0), start + 6)
            else if take 3 rest = '',<0'' then Parsed (Node (IntLess 0), start + 6)
            else if take 2 rest = '',>'' \<or> take 2 rest = '',<''
            then ParseFatalException (start + 5) ''Expected a number''
            else Parsed (Node CheckInt, start + 3))
         else if w = ''list'' then
           (if take 3 rest = ''[N]'' then Parsed (Node (ListLength ''N''), start + 7)
            else if take 19 rest = ''[>0](tuple(str, *))''
            then Parsed (Node ListOfCouples, start + 23)
            else Parsed (Node CheckList, start + 4))
         else if w = [] then ParseException start ''Expected a contract''
         else (case reg w of
                 Some _ \<Rightarrow> Parsed (Extension w, start + length w)
               | None \<Rightarrow> ParseException start ''Expected a contract''))"

definition sample_identifier :: "string \<Rightarrow> unit parse_outcome" where
  "sample_identifier s =
     (let start = sample_preParse s 0;
          w = word (drop start s);
          stop = sample_preParse s (start + length w)
      in case w of
           [] \<Rightarrow> ParseException start ''Expected an identifier''
         | c # cs \<Rightarrow>
             (if c \<in> set ''0123456789'' then ParseException start ''Expected an identifier''
              else if stop < length s then ParseException stop ''Expected end of text''
              else Parsed ()))"

text \<open>
  Modelled from the spec: the identifier-syntax rule, "letters/digits/underscore, not
  starting with a digit"; the pattern \<^verbatim>\<open>identifier_expression\<close> of
  \<^verbatim>\<open>library.py\<close> is missing.
\<close>

definition identifier_rule :: "string \<Rightarrow> bool" where
  "identifier_rule s =
     (case s of
        [] \<Rightarrow> False
      | c # cs \<Rightarrow>
          c \<in> set ''abcdefghijklmnopqrstuvwxyzABCDEFGHIJKLMNOPQRSTUVWXYZ_''
          \<and> list_all
               (\<lambda>d. d \<in> set ''abcdefghijklmnopqrstuvwxyzABCDEFGHIJKLMNOPQRSTUVWXYZ_0123456789'')
               cs)"


fun is_couple :: "pyval \<Rightarrow> bool" where
  "is_couple (PyTuple [PyStr c, v]) = True"
| "is_couple v = False"

fun sample_check_node :: "sample_node \<Rightarrow> (string \<times> int) list \<Rightarrow> pyval \<Rightarrow> sample_error + (string \<times> int) list" where
  "sample_check_node CheckInt ctx (PyInt i) = Inr ctx"
| "sample_check_node CheckList ctx (PyList xs) = Inr ctx"
| "sample_check_node (IntGreater k) ctx (PyInt i) =
     (if k < i then Inr ctx else Inl (ContractNotRespected ''Condition > not respected.'' (PyInt i)))"
| "sample_check_node (IntLess k) ctx (PyInt i) =
     (if i < k then Inr ctx else Inl (ContractNotRespected ''Condition < not respected.'' (PyInt i)))"
| "sample_check_node (ListLength n) ctx (PyList xs) =
     (case map_of ctx n of
        None \<Rightarrow> Inr (ctx @ [(n, int (length xs))])
      | Some k \<Rightarrow>
          (if k = int (length xs) then Inr ctx
           else Inl (ContractNotRespected ''Expected the bound length.'' (PyList xs))))"
| "sample_check_node ListOfCouples ctx (PyList xs) =
     (if xs \<noteq> [] \<and> list_all is_couple xs then Inr ctx
      else Inl (ContractNotRespected ''Expected a non-empty list of couples.'' (PyList xs)))"
| "sample_check_node n ctx v = Inl (ContractNotRespected ''Wrong type.'' v)"

fun sample_check_local :: "sample_contract \<Rightarrow> (string \<times> int) list \<Rightarrow> pyval \<Rightarrow> sample_error + (string \<times> int) list" where
  "sample_check_local (Node n) ctx v = sample_check_node n ctx v"
| "sample_check_local (SeparateContext c) ctx v =
     (case sample_check_local c [] v of Inl e \<Rightarrow> Inl e | Inr _ \<Rightarrow> Inr ctx)"
| "sample_check_local (CheckCallable f) ctx v = Inr ctx"
| "sample_check_local (Extension i) ctx v = Inl (ContractNotRespected ''Unknown extension.'' v)"

definition sample_check ::
  "(string \<rightharpoonup> sample_contract) \<Rightarrow> sample_contract \<Rightarrow> (string \<times> int) list \<Rightarrow> pyval
     \<Rightarrow> sample_error + (string \<times> int) list" where
  "sample_check reg c ctx v =
     (case c of
        Extension i \<Rightarrow>
          (case reg i of
             Some c' \<Rightarrow> sample_check_local c' ctx v
           | None \<Rightarrow> Inl (ContractNotRespected ''Unknown extension.'' v))
      | _ \<Rightarrow> sample_check_local c ctx v)"

definition sample_getcallargs :: "pyfun \<Rightarrow> pyval list \<Rightarrow> string option" where
  "sample_getcallargs f args =
     (case f of Lambda n \<Rightarrow>
        if length args = n then None else Some ''wrong number of arguments'')"

definition sample_env :: sample_env where
  "sample_env =
     \<lparr> contract_parse = sample_grammar,
       preParse = sample_preParse,
       exception_str = (\<lambda>s loc msg. msg),
       identifier_expression = sample_identifier,
       check_contract = sample_check,
       contract_check = (\<lambda>reg c v. sample_check reg c [] v),
       Context = [],
       ismethod = (\<lambda>f. False),
       isfunction = (\<lambda>f. True),
       im_func = (\<lambda>f. f),
       im_self = (\<lambda>f. PyStr ''self''),
       call_attr = (\<lambda>f. f),
       getcallargs = sample_getcallargs,
       str_value = PyStr,
       couples_value = (\<lambda>couples. PyList (map (\<lambda>(c, v). PyTuple [PyStr c, v]) couples)) \<rparr>"

text \<open>Both dictionaries are empty when the module is loaded.\<close>

definition initial_state :: "('f, 'n) state" where
  "initial_state = \<lparr> string2contract = Map.empty, registrar = Map.empty \<rparr>"

text \<open>
  Two states reached from the initial one by a registration: \<^verbatim>\<open>pos\<close> as an alias
  of \<^verbatim>\<open>int,>0\<close>, and \<^verbatim>\<open>vec\<close> as an alias of \<^verbatim>\<open>list[N]\<close>.
\<close>

definition pos_registered :: "(pyfun, sample_node) state" where
  "pos_registered = fst (new_contract_impl sample_env initial_state (Str ''pos'') (Str ''int,>0''))"

definition vec_registered :: "(pyfun, sample_node) state" where
  "vec_registered = fst (new_contract_impl sample_env initial_state (Str ''vec'') (Str ''list[N]''))"

section \<open>Properties\<close>

lemmas sample_defs = sample_env_def sample_grammar_def sample_identifier_def sample_check_def
  sample_getcallargs_def initial_state_def sample_preParse_def word_def contract_parseString_def
  lineno_def col_def rfind_newline_def

lemmas registration_defs = new_contract_impl_def identifier_checks_def condition_contract_def
  self_check_def parse_contract_string_def can_accept_exactly_one_argument_def

lemma pair_of_snd: "snd p = v \<Longrightarrow> p = (fst p, v)"
  by (cases p) simp

subsection \<open>The cached parser\<close>

text \<open>
  The parser raises nothing but \<^verbatim>\<open>ContractSyntaxError\<close>, and then leaves the state as
  it was; when it returns, the node is in the cache under the string, the registrar is
  untouched and no other entry of the cache has changed.
\<close>

lemma parse_contract_string_raises:
  assumes "parse_contract_string E s string = (s', Inl e)"
  shows "s' = s \<and> (\<exists>m l c. e = ContractSyntaxError m (Where string l c))
         \<and> string2contract s string = None"
  using assms
  by (auto simp: parse_contract_string_def split: option.splits parse_outcome.splits)

lemma parse_contract_string_returns:
  assumes "parse_contract_string E s string = (s', Inr c)"
  shows "string2contract s' string = Some c"
    and "registrar s' = registrar s"
    and "string2contract s k = Some c' \<Longrightarrow> string2contract s' k = Some c'"
    and "k \<noteq> string \<Longrightarrow> string2contract s' k = string2contract s k"
  using assms
  by (auto simp: parse_contract_string_def split: option.splits parse_outcome.splits)

lemma parse_contract_string_hit:
  "string2contract s string = Some c \<Longrightarrow> parse_contract_string E s string = (s, Inr c)"
  by (simp add: parse_contract_string_def)

text \<open>
  C4. When \<^verbatim>\<open>parse_contract_string\<close> has returned a node for a string, a second call
  with the same string returns that node from the cache and leaves the state as it is,
  whatever the grammar engine would do (the second call is made with an arbitrary
  environment \<open>E'\<close>, so its result does not come from the grammar). The node is stored
  under exactly that string: no other key of the cache has changed.
\<close>

theorem parse_contract_string_cached:
  assumes "parse_contract_string E s string = (s', Inr c)"
  shows "parse_contract_string E' s' string = (s', Inr c)
         \<and> string2contract s' string = Some c
         \<and> (\<forall>k. k \<noteq> string \<longrightarrow> string2contract s' k = string2contract s k)"
  using assms
  by (auto simp: parse_contract_string_def split: option.splits parse_outcome.splits)

theorem parse_contract_string_cached_witness:
  "snd (parse_contract_string sample_env initial_state ''int,>0'') = Inr (Node (IntGreater 0))
   \<and> parse_contract_string
        (sample_env\<lparr>contract_parse := (\<lambda>reg s. ParseFatalException 0 [])\<rparr>)
        (fst (parse_contract_string sample_env initial_state ''int,>0'')) ''int,>0''
       = (fst (parse_contract_string sample_env initial_state ''int,>0''), Inr (Node (IntGreater 0)))
   \<and> string2contract (fst (parse_contract_string sample_env initial_state ''int,>0'')) ''int, >0'' = None"
proof -
  have r: "snd (parse_contract_string sample_env initial_state ''int,>0'') = Inr (Node (IntGreater 0))"
    by (simp add: parse_contract_string_def sample_defs)
  have run: "parse_contract_string sample_env initial_state ''int,>0''
             = (fst (parse_contract_string sample_env initial_state ''int,>0''), Inr (Node (IntGreater 0)))"
    by (rule prod_eqI) (simp_all add: r)
  have other: "string2contract initial_state ''int, >0'' = (None :: sample_contract option)"
    by (simp add: initial_state_def)
  note th = parse_contract_string_cached [OF run,
      where E' = "sample_env\<lparr>contract_parse := (\<lambda>reg s. ParseFatalException 0 [])\<rparr>"]
  from th have t1: "parse_contract_string
        (sample_env\<lparr>contract_parse := (\<lambda>reg s. ParseFatalException 0 [])\<rparr>)
        (fst (parse_contract_string sample_env initial_state ''int,>0'')) ''int,>0''
       = (fst (parse_contract_string sample_env initial_state ''int,>0''), Inr (Node (IntGreater 0)))"
    by (rule conjunct1)
  from th have t3: "string2contract (fst (parse_contract_string sample_env initial_state ''int,>0'')) ''int, >0''
       = string2contract initial_state ''int, >0''"
    by simp
  show ?thesis
    by (intro conjI) (rule r, rule t1, simp only: t3 other)
qed




lemma first_position: "lineno 0 strg = 1 \<and> col 0 strg = 1"
  by (simp add: lineno_def col_def rfind_newline_def)





subsection \<open>Registration\<close>

text \<open>
  What each step of \<^verbatim>\<open>new_contract_impl\<close> leaves behind. An identifier that
  passes its checks is a string, parses as an identifier and has left the state as it
  was; the condition's bare contract is in the cache when the condition is a string; the
  last step returns the bare contract only if the cache maps the identifier to its
  \<open>Extension\<close> node.
\<close>

lemma identifier_checks_returns:
  assumes "identifier_checks E s identifier = (s1, Inr ident)"
  shows "identifier = Str ident \<and> s1 = s \<and> identifier_expression E ident = Parsed ()"
  using assms
  by (auto simp: identifier_checks_def
           split: pyarg.splits option.splits prod.splits sum.splits error.splits
                  parse_outcome.splits
           dest: parse_contract_string_raises)

lemma identifier_checks_raises:
  assumes "identifier_checks E s identifier = (s1, Inl e)"
  shows "registrar s1 = registrar s"
  using assms
  by (auto simp: identifier_checks_def
           split: pyarg.splits option.splits prod.splits sum.splits error.splits
                  parse_outcome.splits
           dest: parse_contract_string_raises parse_contract_string_returns(2))

lemma identifier_checks_registered:
  assumes "registrar s ident = Some old"
  shows "identifier_checks E s (Str ident) =
           (case identifier_expression E ident of
              Parsed u \<Rightarrow> (s, Inr ident)
            | ParseException loc msg \<Rightarrow>
                (s, Inl (ValueError (NotAnIdentifier ident (exception_str E ident loc msg)
                           (Where ident (lineno loc ident) (col loc ident)))))
            | ParseFatalException loc msg \<Rightarrow> (s, Inl (UncaughtParseFatal loc msg)))"
  using assms by (simp add: identifier_checks_def)

lemma condition_contract_returns:
  assumes "condition_contract E s condition = (s', Inr b)"
  shows "registrar s' = registrar s"
    and "string2contract s k = Some c' \<Longrightarrow> string2contract s' k = Some c'"
    and "condition = Str d \<Longrightarrow> string2contract s' d = Some b"
    and "condition = Callable f \<Longrightarrow> b = CheckCallable f \<and> s' = s"
  using assms
  by (auto simp: condition_contract_def
           split: pyarg.splits prod.splits sum.splits error.splits bool.splits
           dest: parse_contract_string_returns)

lemma condition_contract_raises:
  assumes "condition_contract E s condition = (s', Inl e)"
  shows "s' = s"
  using assms
  by (auto simp: condition_contract_def
           split: pyarg.splits prod.splits sum.splits error.splits bool.splits
           dest: parse_contract_string_raises)

lemma self_check_returns:
  assumes "self_check E s ident b = (s', Inr r)"
  shows "r = b" and "string2contract s' ident = Some (Extension ident)"
    and "registrar s' = registrar s"
    and "string2contract s k = Some c' \<Longrightarrow> string2contract s' k = Some c'"
  using assms
  by (auto simp: self_check_def
           split: prod.splits sum.splits error.splits if_splits
           dest: parse_contract_string_returns)


lemma self_check_registrar:
  "registrar (fst (self_check E s ident b)) = registrar s"
  by (auto simp: self_check_def
           split: prod.splits sum.splits error.splits if_splits
           dest: parse_contract_string_returns(2) parse_contract_string_raises)

lemma new_contract_impl_returns:
  assumes "new_contract_impl E s identifier condition = (s', Inr r)"
  shows "\<exists>ident. identifier = Str ident
           \<and> identifier_expression E ident = Parsed ()
           \<and> registrar s' ident = Some (SeparateContext r)
           \<and> string2contract s' ident = Some (Extension ident)
           \<and> (\<forall>d. condition = Str d \<longrightarrow> string2contract s' d = Some r)
           \<and> (\<forall>f. condition = Callable f \<longrightarrow> r = CheckCallable f)"
proof -
  from assms obtain s1 ident where ic: "identifier_checks E s identifier = (s1, Inr ident)"
    by (auto simp: new_contract_impl_def split: prod.splits sum.splits)
  from identifier_checks_returns [OF ic]
  have id: "identifier = Str ident" "s1 = s" "identifier_expression E ident = Parsed ()"
    by simp_all
  from assms ic obtain s2 b where cc: "condition_contract E s condition = (s2, Inr b)"
    by (auto simp: new_contract_impl_def id split: prod.splits sum.splits)
  let ?t = "(case registrar s2 ident of Some old \<Rightarrow> s2
              | None \<Rightarrow> s2\<lparr>registrar := (registrar s2)(ident \<mapsto> SeparateContext b)\<rparr>)"
  from assms ic cc have sc: "self_check E ?t ident b = (s', Inr r)"
    and reg: "registrar ?t ident = Some (SeparateContext b)"
    by (auto simp: new_contract_impl_def id Let_def split: option.splits if_splits)
  have mono: "string2contract s2 k = Some c' \<Longrightarrow> string2contract ?t k = Some c'" for k c'
    by (simp split: option.splits)
  from self_check_returns [OF sc] have r: "r = b"
    and ext: "string2contract s' ident = Some (Extension ident)"
    and reg': "registrar s' = registrar ?t"
    and keep: "string2contract ?t k = Some c' \<Longrightarrow> string2contract s' k = Some c'" for k c'
    by simp_all
  have str: "condition = Str d \<Longrightarrow> string2contract s' d = Some r" for d
    using condition_contract_returns(3) [OF cc] mono keep r by blast
  have cal: "condition = Callable f \<Longrightarrow> r = CheckCallable f" for f
    using condition_contract_returns(4) [OF cc] r by blast
  show ?thesis
    using id ext reg reg' r str cal by auto
qed

text \<open>The sample registrations, evaluated.\<close>

lemma pos_registered_eval:
  "pos_registered =
     \<lparr> string2contract = [''int,>0'' \<mapsto> Node (IntGreater 0), ''pos'' \<mapsto> Extension ''pos''],
       registrar = [''pos'' \<mapsto> SeparateContext (Node (IntGreater 0))] \<rparr>"
  by (simp add: pos_registered_def registration_defs sample_defs)

lemma register_pos:
  "new_contract_impl sample_env initial_state (Str ''pos'') (Str ''int,>0'')
     = (pos_registered, Inr (Node (IntGreater 0)))"
  unfolding pos_registered_def
  by (rule pair_of_snd) (simp add: registration_defs sample_defs)

lemma vec_registered_eval:
  "vec_registered =
     \<lparr> string2contract = [''list[N]'' \<mapsto> Node (ListLength ''N''), ''vec'' \<mapsto> Extension ''vec''],
       registrar = [''vec'' \<mapsto> SeparateContext (Node (ListLength ''N''))] \<rparr>"
  by (simp add: vec_registered_def registration_defs sample_defs)

lemma register_vec:
  "new_contract_impl sample_env initial_state (Str ''vec'') (Str ''list[N]'')
     = (vec_registered, Inr (Node (ListLength ''N'')))"
  unfolding vec_registered_def
  by (rule pair_of_snd) (simp add: registration_defs sample_defs)

text \<open>
  When the identifier grammar raises \<^verbatim>\<open>ParseException\<close> on the identifier,
  \<^verbatim>\<open>new_contract_impl\<close> raises a \<^verbatim>\<open>ValueError\<close>: the one about the identifier's
  syntax, or, when the string parses as a contract and is not registered, the one about
  an already known expression, which comes first. The registrar is unchanged and the
  outcome is the same for every condition.
\<close>

lemma new_contract_impl_identifier_refused:
  assumes "identifier_expression E ident = ParseException loc msg"
  shows "\<exists>s1 ve. (\<forall>condition. new_contract_impl E s (Str ident) condition = (s1, Inl (ValueError ve)))
           \<and> registrar s1 = registrar s
           \<and> (ve = NotAnIdentifier ident (exception_str E ident loc msg)
                     (Where ident (lineno loc ident) (col loc ident))
               \<or> (\<exists>c. ve = InvalidIdentifier ident c))"
proof -
  have "\<exists>s1 ve. identifier_checks E s (Str ident) = (s1, Inl (ValueError ve))
              \<and> (ve = NotAnIdentifier ident (exception_str E ident loc msg)
                        (Where ident (lineno loc ident) (col loc ident))
                  \<or> (\<exists>c. ve = InvalidIdentifier ident c))"
    using assms
    by (auto simp: identifier_checks_def
             split: option.splits prod.splits sum.splits error.splits
             dest: parse_contract_string_raises)
  then obtain s1 ve where run: "identifier_checks E s (Str ident) = (s1, Inl (ValueError ve))"
    and ve: "ve = NotAnIdentifier ident (exception_str E ident loc msg)
                    (Where ident (lineno loc ident) (col loc ident))
             \<or> (\<exists>c. ve = InvalidIdentifier ident c)"
    by blast
  have res: "new_contract_impl E s (Str ident) cnd = (s1, Inl (ValueError ve))" for cnd
    using run by (simp add: new_contract_impl_def)
  have reg: "registrar s1 = registrar s"
    by (rule identifier_checks_raises [OF run])
  show ?thesis
    using res ve reg by blast
qed

text \<open>
  The identifier grammar decides, not the rule itself. When it accepts an identifier
  that is not registered and that the contract grammar does not parse, neither before
  the registration (which is what lets the identifier through) nor after it, the call
  has parsed the condition and written the registrar when its last step raises
  \<^verbatim>\<open>AssertionError\<close>.
\<close>

lemma new_contract_impl_assertion:
  assumes "registrar s ident = None"
      and "string2contract s ident = None"
      and "contract_parseString E (registrar s) ident = ParseException loc msg"
      and "identifier_expression E ident = Parsed ()"
      and "condition_contract E s condition = (s2, Inr b)"
      and "string2contract s2 ident = None"
      and "contract_parseString E ((registrar s)(ident \<mapsto> SeparateContext b)) ident
             = ParseException loc' msg'"
  shows "new_contract_impl E s (Str ident) condition
           = (s2\<lparr>registrar := (registrar s)(ident \<mapsto> SeparateContext b)\<rparr>, Inl AssertionError)"
proof -
  have ic: "identifier_checks E s (Str ident) = (s, Inr ident)"
    using assms(1-4) by (simp add: identifier_checks_def parse_contract_string_def)
  have reg: "registrar s2 = registrar s"
    by (rule condition_contract_returns(1) [OF assms(5)])
  have sc: "self_check E (s2\<lparr>registrar := (registrar s)(ident \<mapsto> SeparateContext b)\<rparr>) ident b
              = (s2\<lparr>registrar := (registrar s)(ident \<mapsto> SeparateContext b)\<rparr>, Inl AssertionError)"
    using assms(6,7) by (simp add: self_check_def parse_contract_string_def)
  show ?thesis
    using ic assms(1,5) reg sc by (simp add: new_contract_impl_def)
qed

text \<open>
  C8. The identifier \<^verbatim>\<open>' pos'\<close>, with a blank in front, does not match the
  identifier-syntax rule. The identifier grammar skips the blank and accepts it, so
  \<^verbatim>\<open>new_contract_impl(' pos', 'int')\<close> goes on: it parses the definition, stores the
  wrapped node in the registrar under \<^verbatim>\<open>' pos'\<close>, and then its self-check fails with
  \<^verbatim>\<open>AssertionError\<close>, because the contract grammar reads \<^verbatim>\<open>' pos'\<close> as the
  unregistered \<^verbatim>\<open>pos\<close>. The error is not a \<^verbatim>\<open>ValueError\<close>, the definition has
  been parsed and the registrar has changed.
\<close>

theorem new_contract_impl_leading_blank:
  "\<not> identifier_rule '' pos''
   \<and> identifier_expression sample_env '' pos'' = Parsed ()
   \<and> new_contract_impl sample_env initial_state (Str '' pos'') (Str ''int'')
       = (\<lparr> string2contract = [''int'' \<mapsto> Node CheckInt],
            registrar = ['' pos'' \<mapsto> SeparateContext (Node CheckInt)] \<rparr>,
          Inl AssertionError)"
proof -
  have r: "\<not> identifier_rule '' pos''"
    by (simp add: identifier_rule_def)
  have i: "identifier_expression sample_env '' pos'' = Parsed ()"
    by (simp add: sample_defs)
  have n: "registrar (initial_state :: (pyfun, sample_node) state) '' pos'' = None"
          "string2contract (initial_state :: (pyfun, sample_node) state) '' pos'' = None"
    by (simp_all add: initial_state_def)
  have g: "contract_parseString sample_env (registrar initial_state) '' pos''
             = ParseException 1 ''Expected a contract''"
    by (simp add: sample_defs)
  have c: "condition_contract sample_env initial_state (Str ''int'')
             = (\<lparr> string2contract = [''int'' \<mapsto> Node CheckInt], registrar = Map.empty \<rparr>,
                Inr (Node CheckInt))"
    by (simp add: condition_contract_def parse_contract_string_def sample_defs)
  have g2: "contract_parseString sample_env
              ((registrar initial_state)('' pos'' \<mapsto> SeparateContext (Node CheckInt))) '' pos''
             = ParseException 1 ''Expected a contract''"
    by (simp add: sample_defs)
  have run: "new_contract_impl sample_env initial_state (Str '' pos'') (Str ''int'')
       = (\<lparr> string2contract = [''int'' \<mapsto> Node CheckInt],
            registrar = ['' pos'' \<mapsto> SeparateContext (Node CheckInt)] \<rparr>,
          Inl AssertionError)"
    using new_contract_impl_assertion [OF n g i c _ g2] by (simp add: initial_state_def)
  show ?thesis
    by (intro conjI) (rule r i run)+
qed

text \<open>
  C7. An identifier that is not in the registrar and that \<^verbatim>\<open>parse_contract_string\<close>
  parses as a contract \<open>c\<close> is refused with the \<^verbatim>\<open>ValueError\<close> that names it and
  \<open>c\<close>, and the registrar is unchanged. An identifier that is in the registrar never
  gets that error, whatever it parses as: when it has the syntax of an identifier and the
  condition gives a bare contract \<open>b\<close>, the call compares \<open>SeparateContext b\<close> with the
  registered contract, raises the redefinition error when they differ and goes on to the
  final self-check when they are equal.
\<close>

theorem new_contract_impl_collision:
  "(registrar s ident = None \<and> parse_contract_string E s ident = (s', Inr c) \<longrightarrow>
      new_contract_impl E s (Str ident) condition
        = (s', Inl (ValueError (InvalidIdentifier ident c)))
      \<and> registrar s' = registrar s)
   \<and> (registrar s ident = Some old \<longrightarrow>
        snd (new_contract_impl E s (Str ident) condition)
          \<noteq> Inl (ValueError (InvalidIdentifier ident c'))
      \<and> (identifier_expression E ident = Parsed ()
           \<and> condition_contract E s condition = (s2, Inr b) \<longrightarrow>
           new_contract_impl E s (Str ident) condition
             = (if SeparateContext b \<noteq> old
                then (s2, Inl (ValueError (Redefinition ident old (SeparateContext b))))
                else self_check E s2 ident b)))"
proof (intro conjI impI)
  assume a: "registrar s ident = None \<and> parse_contract_string E s ident = (s', Inr c)"
  then have "identifier_checks E s (Str ident) = (s', Inl (ValueError (InvalidIdentifier ident c)))"
    by (simp add: identifier_checks_def)
  then show "new_contract_impl E s (Str ident) condition
        = (s', Inl (ValueError (InvalidIdentifier ident c)))"
    by (simp add: new_contract_impl_def)
  from a show "registrar s' = registrar s"
    by (auto dest: parse_contract_string_returns(2))
next
  assume r: "registrar s ident = Some old"
  note ic = identifier_checks_registered [OF r, of E]
  show "snd (new_contract_impl E s (Str ident) condition)
          \<noteq> Inl (ValueError (InvalidIdentifier ident c'))"
    by (auto simp: new_contract_impl_def ic condition_contract_def self_check_def Let_def
             split: parse_outcome.splits prod.splits sum.splits pyarg.splits error.splits
                    bool.splits option.splits if_splits
             dest: parse_contract_string_raises)
  assume "identifier_expression E ident = Parsed () \<and> condition_contract E s condition = (s2, Inr b)"
  then show "new_contract_impl E s (Str ident) condition
             = (if SeparateContext b \<noteq> old
                then (s2, Inl (ValueError (Redefinition ident old (SeparateContext b))))
                else self_check E s2 ident b)"
    using r condition_contract_returns(1) [of E s condition s2 b]
    by (simp add: new_contract_impl_def ic)
qed

theorem new_contract_impl_collision_witness:
  "registrar (initial_state :: (pyfun, sample_node) state) ''int'' = None
   \<and> snd (parse_contract_string sample_env initial_state ''int'') = Inr (Node CheckInt)
   \<and> snd (new_contract_impl sample_env initial_state (Str ''int'') (Str ''int,>0''))
        = Inl (ValueError (InvalidIdentifier ''int'' (Node CheckInt)))
   \<and> registrar pos_registered ''pos'' = Some (SeparateContext (Node (IntGreater 0)))
   \<and> parse_contract_string sample_env pos_registered ''pos'' = (pos_registered, Inr (Extension ''pos''))
   \<and> snd (new_contract_impl sample_env pos_registered (Str ''pos'') (Str ''int,<0''))
        \<noteq> Inl (ValueError (InvalidIdentifier ''pos'' (Extension ''pos'')))"
proof -
  have a1: "registrar (initial_state :: (pyfun, sample_node) state) ''int'' = None"
    by (simp add: initial_state_def)
  have a2: "snd (parse_contract_string sample_env initial_state ''int'') = Inr (Node CheckInt)"
    by (simp add: parse_contract_string_def sample_defs)
  have b1: "registrar pos_registered ''pos'' = Some (SeparateContext (Node (IntGreater 0)))"
    by (simp add: pos_registered_eval)
  have b2: "parse_contract_string sample_env pos_registered ''pos'' = (pos_registered, Inr (Extension ''pos''))"
    by (simp add: pos_registered_eval parse_contract_string_def)
  have r1: "snd (new_contract_impl sample_env initial_state (Str ''int'') (Str ''int,>0''))
        = Inl (ValueError (InvalidIdentifier ''int'' (Node CheckInt)))"
    using new_contract_impl_collision
            [of initial_state "''int''" sample_env
                "fst (parse_contract_string sample_env initial_state ''int'')" "Node CheckInt"
                "Str ''int,>0''"]
          a1 pair_of_snd [OF a2]
    by simp
  have r2: "snd (new_contract_impl sample_env pos_registered (Str ''pos'') (Str ''int,<0''))
        \<noteq> Inl (ValueError (InvalidIdentifier ''pos'' (Extension ''pos'')))"
    using new_contract_impl_collision
            [of pos_registered "''pos''" sample_env _ _ "Str ''int,<0''"
                "SeparateContext (Node (IntGreater 0))" "Extension ''pos''"]
          b1
    by blast
  show ?thesis
    by (intro conjI) (rule a1 a2 r1 b1 b2 r2)+
qed

text \<open>
  C6. When the condition is a callable for which
  \<^verbatim>\<open>can_accept_exactly_one_argument\<close> answers \<open>(False, err)\<close>, the registration
  raises and the registrar is unchanged, whatever the identifier; when the identifier
  has passed its checks the exception is the \<^verbatim>\<open>ValueError\<close> that carries the callable
  and the error of the introspection, and the whole state is unchanged. The introspection
  runs inside \<^verbatim>\<open>new_contract_impl\<close>, before any node is built.
\<close>

theorem new_contract_impl_arity:
  assumes "can_accept_exactly_one_argument E f = (False, err)"
  shows "registrar (fst (new_contract_impl E s identifier (Callable f))) = registrar s
       \<and> (\<exists>e. snd (new_contract_impl E s identifier (Callable f)) = Inl e)
       \<and> (\<forall>ident. identifier_checks E s identifier = (s, Inr ident) \<longrightarrow>
            new_contract_impl E s identifier (Callable f)
              = (s, Inl (ValueError (CallableArity f err))))"
proof -
  have cc: "condition_contract E t (Callable f) = (t, Inl (ValueError (CallableArity f err)))" for t
    using assms by (simp add: condition_contract_def)
  show ?thesis
    by (auto simp: new_contract_impl_def cc split: prod.splits sum.splits
             dest: identifier_checks_raises identifier_checks_returns)
qed

theorem new_contract_impl_arity_witness:
  "can_accept_exactly_one_argument sample_env (Lambda 2) = (False, Some ''wrong number of arguments'')
   \<and> identifier_checks sample_env initial_state (Str ''even'') = (initial_state, Inr ''even'')
   \<and> new_contract_impl sample_env initial_state (Str ''even'') (Callable (Lambda 2))
        = (initial_state,
           Inl (ValueError (CallableArity (Lambda 2) (Some ''wrong number of arguments''))))
   \<and> registrar (fst (new_contract_impl sample_env (initial_state :: (pyfun, sample_node) state)
         (Str ''even'') (Callable (Lambda 2))))
        = registrar initial_state"
proof -
  have h: "can_accept_exactly_one_argument sample_env (Lambda 2) = (False, Some ''wrong number of arguments'')"
    by (simp add: can_accept_exactly_one_argument_def sample_defs)
  have i: "identifier_checks sample_env initial_state (Str ''even'') = (initial_state, Inr ''even'')"
    by (simp add: identifier_checks_def parse_contract_string_def sample_defs)
  note th = new_contract_impl_arity [OF h, of initial_state "Str ''even''"]
  from th i have r: "new_contract_impl sample_env initial_state (Str ''even'') (Callable (Lambda 2))
        = (initial_state,
           Inl (ValueError (CallableArity (Lambda 2) (Some ''wrong number of arguments''))))"
    by blast
  from th have g: "registrar (fst (new_contract_impl sample_env (initial_state :: (pyfun, sample_node) state)
         (Str ''even'') (Callable (Lambda 2))))
        = registrar initial_state"
    by (rule conjunct1)
  show ?thesis
    by (intro conjI) (rule h i r g)+
qed



text \<open>
  C3 (as amended). After a registration that returned the node \<open>r\<close>, the registrar
  maps the identifier to \<open>SeparateContext r\<close>, parsing the identifier gives the node
  \<open>Extension identifier\<close> and leaves the state as it is, and \<open>r\<close> is the parse of the
  definition when it is a string and \<open>CheckCallable f\<close> when it is a callable \<open>f\<close>.
  The parse of the identifier is the reference node, which the registrar resolves to the
  wrapped definition; it is not the wrapped definition itself.
\<close>

theorem new_contract_impl_registers:
  assumes "new_contract_impl E s (Str ident) condition = (s', Inr r)"
  shows "registrar s' ident = Some (SeparateContext r)
       \<and> parse_contract_string E s' ident = (s', Inr (Extension ident))
       \<and> (\<forall>d. condition = Str d \<longrightarrow> parse_contract_string E s' d = (s', Inr r))
       \<and> (\<forall>f. condition = Callable f \<longrightarrow> r = CheckCallable f)"
  using new_contract_impl_returns [OF assms]
  by (auto simp: parse_contract_string_hit)

theorem new_contract_impl_registers_witness:
  "new_contract_impl sample_env initial_state (Str ''pos'') (Str ''int,>0'')
     = (pos_registered, Inr (Node (IntGreater 0)))
   \<and> registrar pos_registered ''pos'' = Some (SeparateContext (Node (IntGreater 0)))
   \<and> parse_contract_string sample_env pos_registered ''pos'' = (pos_registered, Inr (Extension ''pos''))
   \<and> parse_contract_string sample_env pos_registered ''int,>0''
        = (pos_registered, Inr (Node (IntGreater 0)))"
  using new_contract_impl_registers [OF register_pos] register_pos
  by simp

text \<open>
  The claim as stated also takes the parse of the identifier to be structurally equal to
  the wrapped parse of the definition. After \<^verbatim>\<open>pos\<close> is registered for
  \<^verbatim>\<open>int,>0\<close>, parsing \<^verbatim>\<open>pos\<close> does not give \<open>SeparateContext\<close> of the parse of
  \<^verbatim>\<open>int,>0\<close>.
\<close>

theorem round_trip_counterexample:
  "new_contract_impl sample_env initial_state (Str ''pos'') (Str ''int,>0'')
     = (pos_registered, Inr (Node (IntGreater 0)))
   \<and> snd (parse_contract_string sample_env pos_registered ''int,>0'') = Inr (Node (IntGreater 0))
   \<and> snd (parse_contract_string sample_env pos_registered ''pos'')
        \<noteq> Inr (SeparateContext (Node (IntGreater 0)))"
  using register_pos
  by (simp add: pos_registered_eval parse_contract_string_def)

text \<open>
  C10. A registration that succeeds returns the bare contract \<open>r\<close>: the node that the
  cache holds for the definition string, or \<open>CheckCallable f\<close> for a callable. The
  registrar holds \<open>SeparateContext r\<close>, which is a different node. In the sample
  environment the returned node of \<^verbatim>\<open>list[N]\<close> binds \<^verbatim>\<open>N\<close> in the context it is
  checked with, and the registered node does not.
\<close>

theorem new_contract_impl_returns_bare:
  assumes "new_contract_impl E s (Str ident) condition = (s', Inr r)"
  shows "registrar s' ident = Some (SeparateContext r)
       \<and> r \<noteq> SeparateContext r
       \<and> (\<forall>d. condition = Str d \<longrightarrow> string2contract s' d = Some r)
       \<and> (\<forall>f. condition = Callable f \<longrightarrow> r = CheckCallable f)"
  using new_contract_impl_returns [OF assms]
  by auto

theorem new_contract_impl_returns_bare_witness:
  "new_contract_impl sample_env initial_state (Str ''vec'') (Str ''list[N]'')
     = (vec_registered, Inr (Node (ListLength ''N'')))
   \<and> registrar vec_registered ''vec'' = Some (SeparateContext (Node (ListLength ''N'')))
   \<and> Node (ListLength ''N'') \<noteq> (SeparateContext (Node (ListLength ''N'')) :: sample_contract)
   \<and> string2contract vec_registered ''list[N]'' = Some (Node (ListLength ''N''))
   \<and> check_contract sample_env (registrar vec_registered) (Node (ListLength ''N'')) []
        (PyList [PyInt 1, PyInt 2]) = Inr [(''N'', 2)]
   \<and> check_contract sample_env (registrar vec_registered)
        (SeparateContext (Node (ListLength ''N''))) [] (PyList [PyInt 1, PyInt 2]) = Inr []
   \<and> check_contract sample_env (registrar vec_registered) (Extension ''vec'') []
        (PyList [PyInt 1, PyInt 2]) = Inr []"
proof -
  have chk: "check_contract sample_env (registrar vec_registered) (Node (ListLength ''N'')) []
        (PyList [PyInt 1, PyInt 2]) = Inr [(''N'', 2)]"
     "check_contract sample_env (registrar vec_registered)
        (SeparateContext (Node (ListLength ''N''))) [] (PyList [PyInt 1, PyInt 2]) = Inr []"
     "check_contract sample_env (registrar vec_registered) (Extension ''vec'') []
        (PyList [PyInt 1, PyInt 2]) = Inr []"
    by (simp_all add: vec_registered_eval sample_defs)
  show ?thesis
    using new_contract_impl_returns_bare [OF register_vec] register_vec chk
    by simp
qed

subsection \<open>The utility \<^verbatim>\<open>fail\<close>\<close>

text \<open>
  C9. For a contract string that parses to the node \<open>c\<close>: when \<^verbatim>\<open>c.check(value)\<close>
  raises \<^verbatim>\<open>ContractNotRespected\<close>, \<^verbatim>\<open>fail\<close> returns normally; when it returns a
  context, \<^verbatim>\<open>fail\<close> raises a \<^verbatim>\<open>ValueError\<close>, which is not a
  \<^verbatim>\<open>ContractNotRespected\<close>, built from the value, the contract and that context.
\<close>

theorem fail_outcomes:
  assumes "parse_contract_string E s contract = (s', Inr c)"
  shows "(\<forall>err x. contract_check E (registrar s') c v = Inl (ContractNotRespected err x) \<longrightarrow>
            fail E s contract v = (s', Inr ()))
       \<and> (\<forall>context. contract_check E (registrar s') c v = Inr context \<longrightarrow>
            fail E s contract v = (s', Inl (ValueError (UnexpectedlySatisfied v c context))))"
  using assms by (simp add: fail_def)

theorem fail_outcomes_witness:
  "snd (parse_contract_string sample_env initial_state ''int,>0'') = Inr (Node (IntGreater 0))
   \<and> contract_check sample_env
        (registrar (fst (parse_contract_string sample_env initial_state ''int,>0'')))
        (Node (IntGreater 0)) (PyInt (- 5))
       = Inl (ContractNotRespected ''Condition > not respected.'' (PyInt (- 5)))
   \<and> snd (fail sample_env initial_state ''int,>0'' (PyInt (- 5))) = Inr ()
   \<and> contract_check sample_env
        (registrar (fst (parse_contract_string sample_env initial_state ''int,>0'')))
        (Node (IntGreater 0)) (PyInt 5)
       = Inr []
   \<and> snd (fail sample_env initial_state ''int,>0'' (PyInt 5))
       = Inl (ValueError (UnexpectedlySatisfied (PyInt 5) (Node (IntGreater 0)) []))"
proof -
  have p: "snd (parse_contract_string sample_env initial_state ''int,>0'') = Inr (Node (IntGreater 0))"
    by (simp add: parse_contract_string_def sample_defs)
  have c1: "contract_check sample_env
        (registrar (fst (parse_contract_string sample_env initial_state ''int,>0'')))
        (Node (IntGreater 0)) (PyInt (- 5))
       = Inl (ContractNotRespected ''Condition > not respected.'' (PyInt (- 5)))"
    by (simp add: sample_defs)
  have c2: "contract_check sample_env
        (registrar (fst (parse_contract_string sample_env initial_state ''int,>0'')))
        (Node (IntGreater 0)) (PyInt 5)
       = Inr []"
    by (simp add: sample_defs)
  note th = fail_outcomes [OF pair_of_snd [OF p]]
  from th [of "PyInt (- 5)"] c1 have f1: "snd (fail sample_env initial_state ''int,>0'' (PyInt (- 5))) = Inr ()"
    by simp
  from th [of "PyInt 5"] c2 have f2: "snd (fail sample_env initial_state ''int,>0'' (PyInt 5))
       = Inl (ValueError (UnexpectedlySatisfied (PyInt 5) (Node (IntGreater 0)) []))"
    by simp
  show ?thesis
    by (intro conjI) (rule p c1 f1 c2 f2)+
qed

subsection \<open>Checking several couples\<close>

text \<open>
  The parsing pass returns one node for each string, each of them the node that the
  cache holds for its string afterwards, and does not touch the registrar. The checking
  pass, once it has gone through the first \<open>k\<close> couples, goes on with the rest from the
  context that the \<open>k\<close>-th check returned, and ends at the first check that raises.
\<close>

lemma parse_contracts_returns:
  assumes "parse_contracts E s xs = (s', Inr C)"
  shows "length C = length xs"
    and "registrar s' = registrar s"
    and "string2contract s k = Some c' \<Longrightarrow> string2contract s' k = Some c'"
    and "i < length xs \<Longrightarrow> string2contract s' (xs ! i) = Some (C ! i)"
proof -
  have "length C = length xs \<and> registrar s' = registrar s
        \<and> (\<forall>k c'. string2contract s k = Some c' \<longrightarrow> string2contract s' k = Some c')
        \<and> (\<forall>i<length xs. string2contract s' (xs ! i) = Some (C ! i))"
    using assms
  proof (induction xs arbitrary: s C)
    case Nil
    then show ?case by simp
  next
    case (Cons x xs)
    from Cons.prems obtain s1 c cs where
      p: "parse_contract_string E s x = (s1, Inr c)"
      and q: "parse_contracts E s1 xs = (s', Inr cs)"
      and C: "C = c # cs"
      by (auto split: prod.splits sum.splits)
    note ih = Cons.IH [OF q]
    note pr = parse_contract_string_returns [OF p]
    have hd: "string2contract s' x = Some c"
      using ih pr(1) by blast
    have nth: "string2contract s' ((x # xs) ! i) = Some (C ! i)" if "i < length (x # xs)" for i
      using that hd ih C by (cases i) auto
    show ?case
      using ih pr(2,3) C nth by auto
  qed
  then show "length C = length xs"
    and "registrar s' = registrar s"
    and "string2contract s k = Some c' \<Longrightarrow> string2contract s' k = Some c'"
    and "i < length xs \<Longrightarrow> string2contract s' (xs ! i) = Some (C ! i)"
    by blast+
qed

lemma check_loop_run:
  assumes "k \<le> length ps"
      and "\<forall>i<k. check_contract E reg (fst (ps ! i)) (ctx i) (snd (ps ! i)) = Inr (ctx (Suc i))"
  shows "check_loop E reg (ctx 0) ps = check_loop E reg (ctx k) (drop k ps)"
  using assms
proof (induction k)
  case 0
  then show ?case by simp
next
  case (Suc k)
  then have ih: "check_loop E reg (ctx 0) ps = check_loop E reg (ctx k) (drop k ps)"
    by simp
  from Suc.prems have lt: "k < length ps" by simp
  have step: "check_contract E reg (fst (ps ! k)) (ctx k) (snd (ps ! k)) = Inr (ctx (Suc k))"
    using Suc.prems by simp
  obtain c v where cv: "ps ! k = (c, v)"
    by (cases "ps ! k")
  have "drop k ps = (c, v) # drop (Suc k) ps"
    using lt cv by (simp add: Cons_nth_drop_Suc [symmetric])
  then show ?case
    using ih step cv by simp
qed

lemma check_loop_stops:
  assumes "k < length ps"
      and "check_contract E reg (fst (ps ! k)) c (snd (ps ! k)) = Inl e"
  shows "check_loop E reg c (drop k ps) = Inl e"
proof -
  obtain c' v where cv: "ps ! k = (c', v)"
    by (cases "ps ! k")
  have "drop k ps = (c', v) # drop (Suc k) ps"
    using assms(1) cv by (simp add: Cons_nth_drop_Suc [symmetric])
  then show ?thesis
    using assms(2) cv by simp
qed

text \<open>The two sample lists of couples: their validation and their parsing.\<close>

lemma validation_three_four:
  "check sample_env initial_state ''list[>0](tuple(str, *))''
     (couples_value sample_env
        [(''list[N]'', PyList [PyInt 1, PyInt 2, PyInt 3]),
         (''list[N]'', PyList [PyInt 1, PyInt 2, PyInt 3, PyInt 4])])
     (Some ''I expect a non-empty list of (object, string) tuples.'')
   = (\<lparr> string2contract = [''list[>0](tuple(str, *))'' \<mapsto> Node ListOfCouples],
        registrar = Map.empty \<rparr>, Inr [])"
  by (simp add: check_def check_contracts_def parse_contract_string_def sample_defs)

lemma validation_three_int:
  "check sample_env initial_state ''list[>0](tuple(str, *))''
     (couples_value sample_env
        [(''list[N]'', PyList [PyInt 1, PyInt 2, PyInt 3]), (''int,>0'', PyInt 4)])
     (Some ''I expect a non-empty list of (object, string) tuples.'')
   = (\<lparr> string2contract = [''list[>0](tuple(str, *))'' \<mapsto> Node ListOfCouples],
        registrar = Map.empty \<rparr>, Inr [])"
  by (simp add: check_def check_contracts_def parse_contract_string_def sample_defs)

lemma parse_list_list:
  "snd (parse_contracts sample_env
     \<lparr> string2contract = [''list[>0](tuple(str, *))'' \<mapsto> Node ListOfCouples],
       registrar = Map.empty \<rparr>
     (map fst [(''list[N]'', PyList [PyInt 1, PyInt 2, PyInt 3]),
               (''list[N]'', PyList [PyInt 1, PyInt 2, PyInt 3, PyInt 4])]))
   = Inr [Node (ListLength ''N''), Node (ListLength ''N'')]"
  by (simp add: parse_contract_string_def sample_defs)

lemma parse_list_int:
  "snd (parse_contracts sample_env
     \<lparr> string2contract = [''list[>0](tuple(str, *))'' \<mapsto> Node ListOfCouples],
       registrar = Map.empty \<rparr>
     (map fst [(''list[N]'', PyList [PyInt 1, PyInt 2, PyInt 3]), (''int,>0'', PyInt 4)]))
   = Inr [Node (ListLength ''N''), Node (IntGreater 0)]"
  by (simp add: parse_contract_string_def sample_defs)

text \<open>
  C1. Let the couples pass the check against \<^verbatim>\<open>list[>0](tuple(str, *))\<close> and all
  their contract strings parse, to the nodes \<open>C\<close>. Each node is what the cached parser
  gives for its string. Let \<open>ctx 0\<close> be the fresh context and let the checks of the
  first \<open>k\<close> couples succeed in order, the check of couple \<open>i\<close> receiving \<open>ctx i\<close>,
  the context that the check before it returned, and returning \<open>ctx (i + 1)\<close>. When
  \<open>k\<close> is the number of couples, \<^verbatim>\<open>check_multiple\<close> returns \<open>ctx k\<close>, the context
  with the bindings of all the couples. When the check of couple \<open>k\<close> raises,
  \<^verbatim>\<open>check_multiple\<close> raises that exception (with the description added to a
  \<^verbatim>\<open>ContractNotRespected\<close>), whatever the couples after \<open>k\<close> are.
\<close>

theorem check_multiple_shared_context:
  assumes "check E s ''list[>0](tuple(str, *))'' (couples_value E couples)
             (Some ''I expect a non-empty list of (object, string) tuples.'') = (s0, Inr c0)"
      and "parse_contracts E s0 (map fst couples) = (s1, Inr C)"
      and "ctx 0 = Context E"
      and "k \<le> length couples"
      and "\<forall>i<k. check_contract E (registrar s1) (C ! i) (ctx i) (snd (couples ! i))
                    = Inr (ctx (Suc i))"
  shows "length C = length couples
       \<and> (\<forall>i<length couples. parse_contract_string E s1 (fst (couples ! i)) = (s1, Inr (C ! i)))
       \<and> (k = length couples \<longrightarrow> check_multiple E s couples desc = (s1, Inr (ctx k)))
       \<and> (\<forall>e. k < length couples
               \<and> check_contract E (registrar s1) (C ! k) (ctx k) (snd (couples ! k)) = Inl e \<longrightarrow>
             check_multiple E s couples desc
               = (s1, Inl (describe_error desc (newline @ newline @ ''Details:'' @ newline) e)))"
proof -
  note pc = parse_contracts_returns [OF assms(2)]
  have len: "length C = length couples"
    using pc(1) by simp
  have cached: "parse_contract_string E s1 (fst (couples ! i)) = (s1, Inr (C ! i))"
    if "i < length couples" for i
    using pc(4) [of i] that by (simp add: parse_contract_string_hit)
  let ?ps = "zip C (map snd couples)"
  have cc: "check_contracts E s0 (map fst couples) (map snd couples)
              = (s1, check_loop E (registrar s1) (Context E) ?ps)"
    using assms(2) by (simp add: check_contracts_def)
  have lps: "length ?ps = length couples"
    using len by simp
  have nth: "fst (?ps ! i) = C ! i \<and> snd (?ps ! i) = snd (couples ! i)" if "i < length couples" for i
    using that len by simp
  have steps: "\<forall>i<k. check_contract E (registrar s1) (fst (?ps ! i)) (ctx i) (snd (?ps ! i))
                  = Inr (ctx (Suc i))"
    using assms(4,5) nth by simp
  have run: "check_loop E (registrar s1) (Context E) ?ps
               = check_loop E (registrar s1) (ctx k) (drop k ?ps)"
    using check_loop_run [of k ?ps E "registrar s1" ctx] assms(3,4) lps steps by simp
  have all: "check_multiple E s couples desc = (s1, Inr (ctx k))" if "k = length couples"
    using that assms(1) cc run lps by (simp add: check_multiple_def)
  have stop: "check_multiple E s couples desc
               = (s1, Inl (describe_error desc (newline @ newline @ ''Details:'' @ newline) e))"
    if "k < length couples"
       "check_contract E (registrar s1) (C ! k) (ctx k) (snd (couples ! k)) = Inl e" for e
  proof -
    have "check_loop E (registrar s1) (ctx k) (drop k ?ps) = Inl e"
      using check_loop_stops [of k ?ps E "registrar s1" "ctx k" e] that nth lps by simp
    then show ?thesis
      using assms(1) cc run by (simp add: check_multiple_def)
  qed
  show ?thesis
    using len cached all stop by blast
qed

theorem check_multiple_shared_context_witness:
  "snd (check_multiple sample_env initial_state
          [(''list[N]'', PyList [PyInt 1, PyInt 2, PyInt 3]),
           (''list[N]'', PyList [PyInt 1, PyInt 2, PyInt 3, PyInt 4])] None)
     = Inl (ContractNotRespected ''Expected the bound length.''
              (PyList [PyInt 1, PyInt 2, PyInt 3, PyInt 4]))
   \<and> snd (check_multiple sample_env initial_state
          [(''list[N]'', PyList [PyInt 1, PyInt 2, PyInt 3]), (''int,>0'', PyInt 4)] None)
     = Inr [(''N'', 3)]"
proof -
  let ?ctx = "\<lambda>i::nat. if i = 0 then [] else [(''N'', 3::int)]"
  have c0: "?ctx 0 = Context sample_env"
    by (simp add: sample_defs)
  note p1 = pair_of_snd [OF parse_list_list]
  note p2 = pair_of_snd [OF parse_list_int]
  have reg1: "registrar (fst (parse_contracts sample_env
     \<lparr> string2contract = [''list[>0](tuple(str, *))'' \<mapsto> Node ListOfCouples],
       registrar = Map.empty \<rparr>
     (map fst [(''list[N]'', PyList [PyInt 1, PyInt 2, PyInt 3]),
               (''list[N]'', PyList [PyInt 1, PyInt 2, PyInt 3, PyInt 4])]))) = Map.empty"
    using parse_contracts_returns(2) [OF p1] by simp
  have reg2: "registrar (fst (parse_contracts sample_env
     \<lparr> string2contract = [''list[>0](tuple(str, *))'' \<mapsto> Node ListOfCouples],
       registrar = Map.empty \<rparr>
     (map fst [(''list[N]'', PyList [PyInt 1, PyInt 2, PyInt 3]), (''int,>0'', PyInt 4)]))) = Map.empty"
    using parse_contracts_returns(2) [OF p2] by simp
  have k1: "Suc 0 \<le> length [(''list[N]'', PyList [PyInt 1, PyInt 2, PyInt 3]),
               (''list[N]'', PyList [PyInt 1, PyInt 2, PyInt 3, PyInt 4])]"
    by simp
  have k2: "Suc (Suc 0) \<le> length [(''list[N]'', PyList [PyInt 1, PyInt 2, PyInt 3]), (''int,>0'', PyInt 4)]"
    by simp
  have s1: "\<forall>i<Suc 0. check_contract sample_env Map.empty
               ([Node (ListLength ''N''), Node (ListLength ''N'')] ! i) (?ctx i)
               (snd ([(''list[N]'', PyList [PyInt 1, PyInt 2, PyInt 3]),
                      (''list[N]'', PyList [PyInt 1, PyInt 2, PyInt 3, PyInt 4])] ! i))
             = Inr (?ctx (Suc i))"
    by (simp add: sample_defs)
  have s2: "\<forall>i<Suc (Suc 0). check_contract sample_env Map.empty
               ([Node (ListLength ''N''), Node (IntGreater 0)] ! i) (?ctx i)
               (snd ([(''list[N]'', PyList [PyInt 1, PyInt 2, PyInt 3]), (''int,>0'', PyInt 4)] ! i))
             = Inr (?ctx (Suc i))"
    by (simp add: sample_defs less_Suc_eq)
  have e1: "check_contract sample_env Map.empty
               ([Node (ListLength ''N''), Node (ListLength ''N'')] ! Suc 0) (?ctx (Suc 0))
               (snd ([(''list[N]'', PyList [PyInt 1, PyInt 2, PyInt 3]),
                      (''list[N]'', PyList [PyInt 1, PyInt 2, PyInt 3, PyInt 4])] ! Suc 0))
             = Inl (ContractNotRespected ''Expected the bound length.''
                      (PyList [PyInt 1, PyInt 2, PyInt 3, PyInt 4]))"
    by (simp add: sample_defs)
  note t1 = check_multiple_shared_context
              [OF validation_three_four p1, of ?ctx "Suc 0" None, OF c0 k1, unfolded reg1, OF s1]
  note t2 = check_multiple_shared_context
              [OF validation_three_int p2, of ?ctx "Suc (Suc 0)" None, OF c0 k2, unfolded reg2, OF s2]
  from t1 e1 have r1: "snd (check_multiple sample_env initial_state
          [(''list[N]'', PyList [PyInt 1, PyInt 2, PyInt 3]),
           (''list[N]'', PyList [PyInt 1, PyInt 2, PyInt 3, PyInt 4])] None)
     = Inl (ContractNotRespected ''Expected the bound length.''
              (PyList [PyInt 1, PyInt 2, PyInt 3, PyInt 4]))"
    by simp
  from t2 have r2: "snd (check_multiple sample_env initial_state
          [(''list[N]'', PyList [PyInt 1, PyInt 2, PyInt 3]), (''int,>0'', PyInt 4)] None)
     = Inr [(''N'', 3)]"
    by simp
  show ?thesis
    by (intro conjI) (rule r1 r2)+
qed

end
